theory Spec2Isabelle
  imports Complex_Main "HOL-Library.Multiset"
begin

section \<open>Python values\<close>

text \<open>
  Python's \<open>round(x, n)\<close> rounds to \<open>n\<close> decimal places, ties going to the even
  neighbour. The handlers compute with \<open>float\<close> and \<open>Decimal\<close>; both are idealised
  here as exact rationals, so binary representation error and the size limits of
  \<open>DecimalField\<close> are outside the model.
\<close>

definition py_round :: "rat \<Rightarrow> nat \<Rightarrow> rat" where
  "py_round x n =
     (let s = x * 10 ^ n; f = \<lfloor>s\<rfloor>; d = s - of_int f
      in of_int (if d < 1 / 2 then f else if 1 / 2 < d then f + 1
                 else if even f then f else f + 1) / 10 ^ n)"

datatype py_error =
    ValueError
  | KeyError
  | IntegrityError
  | MultipleObjectsReturned
  | DecimalError
  | ValidationError

section \<open>The relational data model (core/models.py)\<close>

text \<open>
  One record per model class, holding the fields the handlers below read or write;
  foreign keys are the primary key of the row they point to, and a table is the list of
  its rows.
\<close>

record school =
  sc_id :: nat
  sc_slug :: string
  sc_owner :: nat

record school_user =
  su_id :: nat
  su_user :: nat
  su_school :: nat
  su_role :: string

record category =
  cat_id :: nat
  cat_name :: string

record course =
  c_id :: nat
  c_school :: nat
  c_category :: "nat option"

record subject =
  s_id :: nat
  s_course :: nat

record lesson =
  l_id :: nat
  l_school :: nat
  l_status :: string

record enrollment =
  e_course :: nat
  e_student :: nat

record progress =
  p_id :: nat
  p_student :: nat
  p_course :: nat
  p_lesson :: nat
  p_is_completed :: bool
  p_progress_percentage :: nat
  p_started_at :: int
  p_completed_at :: "int option"
  p_last_accessed :: int

record assessment =
  a_id :: nat
  a_course :: nat
  a_subject :: "nat option"
  a_title :: string
  a_weight :: rat
  a_attempts_allowed :: nat
  a_time_limit :: "nat option"
  a_open_at :: "int option"
  a_close_at :: "int option"

record question =
  q_id :: nat
  q_assessment :: nat
  q_type :: string
  q_order :: nat
  q_points :: rat

record choice =
  ch_id :: nat
  ch_question :: nat
  ch_is_correct :: bool

record attempt =
  at_id :: nat
  at_student :: nat
  at_assessment :: nat
  at_started_at :: int
  at_finished_at :: "int option"
  at_score :: "rat option"
  at_is_submitted :: bool
  at_attempt_number :: nat

record answer =
  an_id :: nat
  an_attempt :: nat
  an_question :: nat
  an_choice :: "nat option"
  an_text_answer :: string
  an_file_answer :: "string option"
  an_is_correct :: bool

text \<open>
  \<open>db_subject_lessons\<close> is the join table of the many-to-many field
  \<open>Subject.lessons\<close>: a row \<open>(subject, lesson)\<close> attaches the lesson to the subject.
\<close>

record db =
  db_schools :: "school list"
  db_school_users :: "school_user list"
  db_categories :: "category list"
  db_courses :: "course list"
  db_subjects :: "subject list"
  db_lessons :: "lesson list"
  db_subject_lessons :: "(nat \<times> nat) list"
  db_enrollments :: "enrollment list"
  db_progresses :: "progress list"
  db_assessments :: "assessment list"
  db_questions :: "question list"
  db_choices :: "choice list"
  db_attempts :: "attempt list"
  db_answers :: "answer list"

definition empty_db :: db where
  "empty_db = \<lparr>db_schools = [], db_school_users = [], db_categories = [], db_courses = [],
     db_subjects = [], db_lessons = [], db_subject_lessons = [], db_enrollments = [],
     db_progresses = [], db_assessments = [], db_questions = [], db_choices = [],
     db_attempts = [], db_answers = []\<rparr>"

text \<open>The primary key given to a new row: one more than the largest in the table.\<close>

definition fresh_id :: "nat list \<Rightarrow> nat" where
  "fresh_id ids = Suc (fold max ids 0)"

section \<open>Course progress (core/views.py, calculate_course_progress)\<close>



text \<open>
  The constraints the database keeps on these tables: primary keys of lessons are
  distinct, and \<open>Progress.Meta.unique_together = ['student', 'lesson']\<close>.
\<close>

definition progress_key :: "progress \<Rightarrow> nat \<times> nat" where
  "progress_key p = (p_student p, p_lesson p)"

definition wf_progress :: "db \<Rightarrow> bool" where
  "wf_progress d \<longleftrightarrow>
     distinct (map l_id (db_lessons d)) \<and> distinct (map progress_key (db_progresses d))"





section \<open>Requests, responses and the decorators (core/decorators.py)\<close>

text \<open>
  A form field is named after a row: \<open>question_<id>\<close> in the take form,
  \<open>grade_<id>\<close> in the grading form; the other fields have plain names. A request
  carries the authenticated user (if any), the method, and the POST and FILES dictionaries.
\<close>

datatype field = QuestionField nat | GradeField nat | Named string

record request =
  req_user :: "nat option"
  req_method :: string
  req_POST :: "field \<Rightarrow> string option"
  req_FILES :: "field \<Rightarrow> string option"

datatype route =
    LoginUrl
  | AuthLogin string
  | DashboardHome
  | SchoolDashboard string
  | AssessmentDetail string nat
  | AssessmentTake string nat nat
  | AssessmentResult string nat nat
  | AssessmentSubmissions string nat
  | AssessmentList string nat
  | QuestionList string nat
  | CategoryList string

datatype message =
    NoSchoolAccess
  | AdminsOrOwnerOnly
  | AdminsOnly
  | TeachersOnly
  | CategoryHasCourses string nat
  | CategoryDeleted string

datatype 'c response = Http404 | Redirect route | Render string 'c

text \<open>
  What a view gives back: an uncaught exception, or the database after the request, the
  flash messages added and the response.
\<close>

type_synonym 'c outcome = "py_error + (db \<times> message list \<times> 'c response)"

definition login_required ::
  "db \<Rightarrow> (request \<Rightarrow> 'c outcome) \<Rightarrow> request \<Rightarrow> 'c outcome" where
  "login_required d view_func req =
     (if req_user req = None then Inr (d, [], Redirect LoginUrl) else view_func req)"

text \<open>
  \<open>get_school_user\<close> (core/helpers.py): the outer \<open>None\<close> is the 404 of
  \<open>get_object_or_404(School, slug=slug)\<close>, the inner one the missing membership.
  Slugs are unique and so are (user, school) pairs, so a lookup is the first match.
\<close>

definition get_school_user :: "db \<Rightarrow> string \<Rightarrow> nat \<Rightarrow> (school \<times> school_user option) option" where
  "get_school_user d slug user =
     (case find (\<lambda>s. sc_slug s = slug) (db_schools d) of
        None \<Rightarrow> None
      | Some sch \<Rightarrow>
          Some (sch, find (\<lambda>su. su_user su = user \<and> su_school su = sc_id sch)
                       (db_school_users d)))"

definition school_context_required ::
  "db \<Rightarrow> (request \<Rightarrow> string \<Rightarrow> school_user \<Rightarrow> school \<Rightarrow> 'c outcome) \<Rightarrow>
   request \<Rightarrow> string \<Rightarrow> 'c outcome" where
  "school_context_required d view_func req slug =
     (case req_user req of
        None \<Rightarrow> Inr (d, [], Redirect (AuthLogin slug))
      | Some user \<Rightarrow>
          (case get_school_user d slug user of
             None \<Rightarrow> Inr (d, [], Http404)
           | Some (sch, None) \<Rightarrow> Inr (d, [NoSchoolAccess], Redirect DashboardHome)
           | Some (sch, Some su) \<Rightarrow> view_func req slug su sch))"

definition admin_required ::
  "db \<Rightarrow> (request \<Rightarrow> string \<Rightarrow> school_user \<Rightarrow> school \<Rightarrow> 'c outcome) \<Rightarrow>
   request \<Rightarrow> string \<Rightarrow> school_user \<Rightarrow> school \<Rightarrow> 'c outcome" where
  "admin_required d view_func req slug su sch =
     (if su_role su \<noteq> ''admin'' \<and> req_user req \<noteq> Some (sc_owner sch)
      then Inr (d, [AdminsOrOwnerOnly], Redirect (SchoolDashboard (sc_slug sch)))
      else if su_role su \<noteq> ''admin''
      then Inr (d, [AdminsOnly], Redirect (SchoolDashboard (sc_slug sch)))
      else view_func req slug su sch)"

definition teacher_required ::
  "db \<Rightarrow> (request \<Rightarrow> string \<Rightarrow> school_user \<Rightarrow> school \<Rightarrow> 'c outcome) \<Rightarrow>
   request \<Rightarrow> string \<Rightarrow> school_user \<Rightarrow> school \<Rightarrow> 'c outcome" where
  "teacher_required d view_func req slug su sch =
     (if su_role su = ''admin'' then view_func req slug su sch
      else if su_role su = ''teacher'' then view_func req slug su sch
      else Inr (d, [TeachersOnly], Redirect (SchoolDashboard (sc_slug sch))))"

section \<open>Starting an attempt (core/assessments_views.py, assessment_start)\<close>

text \<open>\<open>get_object_or_404(Assessment, id=assessment_id, course__school=school)\<close>.\<close>

definition get_assessment :: "db \<Rightarrow> nat \<Rightarrow> school \<Rightarrow> assessment option" where
  "get_assessment d assessment_id sch =
     find (\<lambda>a. a_id a = assessment_id \<and>
                (\<exists>c \<in> set (db_courses d). c_id c = a_course a \<and> c_school c = sc_id sch))
          (db_assessments d)"

definition assessment_start ::
  "db \<Rightarrow> int \<Rightarrow> request \<Rightarrow> string \<Rightarrow> nat \<Rightarrow> school_user \<Rightarrow> school \<Rightarrow> unit outcome" where
  "assessment_start d now req slug assessment_id su sch =
     (case get_assessment d assessment_id sch of
        None \<Rightarrow> Inr (d, [], Http404)
      | Some a \<Rightarrow>
          if su_role su \<noteq> ''student''
          then Inr (d, [], Redirect (AssessmentDetail (sc_slug sch) (a_id a)))
          else
            let is_enrolled = (\<exists>e \<in> set (db_enrollments d).
                                 e_course e = a_course a \<and> e_student e = su_id su)
            in if \<not> is_enrolled
               then Inr (d, [], Redirect (AssessmentDetail (sc_slug sch) (a_id a)))
               else
                 let existing_attempts =
                       length (filter (\<lambda>t. at_assessment t = a_id a \<and> at_student t = su_id su)
                                      (db_attempts d))
                 in if existing_attempts \<ge> a_attempts_allowed a
                    then Inr (d, [], Redirect (AssessmentDetail (sc_slug sch) (a_id a)))
                    else if (case a_open_at a of None \<Rightarrow> False | Some t \<Rightarrow> now < t)
                    then Inr (d, [], Redirect (AssessmentDetail (sc_slug sch) (a_id a)))
                    else if (case a_close_at a of None \<Rightarrow> False | Some t \<Rightarrow> now > t)
                    then Inr (d, [], Redirect (AssessmentDetail (sc_slug sch) (a_id a)))
                    else
                      let attempt_number = existing_attempts + 1;
                          attempt = \<lparr>at_id = fresh_id (map at_id (db_attempts d)),
                                     at_student = su_id su, at_assessment = a_id a,
                                     at_started_at = now, at_finished_at = None,
                                     at_score = None, at_is_submitted = False,
                                     at_attempt_number = attempt_number\<rparr>
                      in Inr (d\<lparr>db_attempts := db_attempts d @ [attempt]\<rparr>, [],
                              Redirect (AssessmentTake (sc_slug sch) (a_id a) (at_id attempt))))"

text \<open>The creation guard, written from the specification's four conditions.\<close>

definition start_allowed :: "db \<Rightarrow> int \<Rightarrow> school_user \<Rightarrow> assessment \<Rightarrow> bool" where
  "start_allowed d now su a \<longleftrightarrow>
     su_role su = ''student'' \<and>
     (\<exists>e \<in> set (db_enrollments d). e_student e = su_id su \<and> e_course e = a_course a) \<and>
     length (filter (\<lambda>t. at_assessment t = a_id a \<and> at_student t = su_id su) (db_attempts d))
       < a_attempts_allowed a \<and>
     (case a_open_at a of None \<Rightarrow> True | Some t \<Rightarrow> t \<le> now) \<and>
     (case a_close_at a of None \<Rightarrow> True | Some t \<Rightarrow> now \<le> t)"

text \<open>
  School 1 with one course, one enrolled student (school user 5) and an assessment that
  allows two attempts and closes at time 100; the student has used both attempts.
\<close>

definition sch1 :: school where
  "sch1 = \<lparr>sc_id = 1, sc_slug = ''s1'', sc_owner = 1\<rparr>"

definition student5 :: school_user where
  "student5 = \<lparr>su_id = 5, su_user = 50, su_school = 1, su_role = ''student''\<rparr>"

definition used_attempt :: "nat \<Rightarrow> attempt" where
  "used_attempt n = \<lparr>at_id = n, at_student = 5, at_assessment = 1, at_started_at = 10,
     at_finished_at = Some 20, at_score = Some 0, at_is_submitted = True,
     at_attempt_number = n\<rparr>"

definition db_start :: db where
  "db_start = empty_db\<lparr>
     db_schools := [sch1],
     db_school_users := [student5],
     db_courses := [\<lparr>c_id = 1, c_school = 1, c_category = None\<rparr>],
     db_enrollments := [\<lparr>e_course = 1, e_student = 5\<rparr>],
     db_assessments := [\<lparr>a_id = 1, a_course = 1, a_subject = None, a_title = ''quiz'',
        a_weight = 10, a_attempts_allowed = 2, a_time_limit = None, a_open_at = None,
        a_close_at = Some 100\<rparr>]\<rparr>"

definition get_request :: request where
  "get_request = \<lparr>req_user = Some 50, req_method = ''GET'', req_POST = (\<lambda>_. None),
     req_FILES = (\<lambda>_. None)\<rparr>"

section \<open>Deleting a category (core/courses_views.py, category_delete)\<close>

text \<open>
  \<open>category.delete()\<close> removes the row; \<open>Course.category\<close> is declared with
  \<open>on_delete=SET_NULL\<close>, so the courses that still point to it lose the reference.
\<close>

definition delete_category :: "db \<Rightarrow> category \<Rightarrow> db" where
  "delete_category d cat =
     d\<lparr>db_categories := filter (\<lambda>c. cat_id c \<noteq> cat_id cat) (db_categories d),
       db_courses := map (\<lambda>c. if c_category c = Some (cat_id cat)
                                then c\<lparr>c_category := None\<rparr> else c) (db_courses d)\<rparr>"

definition category_delete ::
  "db \<Rightarrow> request \<Rightarrow> string \<Rightarrow> nat \<Rightarrow> school_user \<Rightarrow> school \<Rightarrow> nat outcome" where
  "category_delete d req slug category_id su sch =
     (case find (\<lambda>c. cat_id c = category_id) (db_categories d) of
        None \<Rightarrow> Inr (d, [], Http404)
      | Some cat \<Rightarrow>
          let courses_count =
                length (filter (\<lambda>c. c_category c = Some (cat_id cat) \<and> c_school c = sc_id sch)
                               (db_courses d))
          in if req_method req = ''POST''
             then (if courses_count > 0
                   then Inr (d, [CategoryHasCourses (cat_name cat) courses_count],
                             Redirect (CategoryList slug))
                   else let name = cat_name cat
                        in Inr (delete_category d cat, [CategoryDeleted name],
                                Redirect (CategoryList slug)))
             else Inr (d, [], Render ''category_delete'' courses_count))"

definition category_delete_view :: "db \<Rightarrow> request \<Rightarrow> string \<Rightarrow> nat \<Rightarrow> nat outcome" where
  "category_delete_view d req slug category_id =
     login_required d
       (\<lambda>r. school_context_required d
              (admin_required d (\<lambda>r' slug' su sch. category_delete d r' slug' category_id su sch))
              r slug)
       req"

text \<open>The number of courses of a school linked to a category, as the specification counts.\<close>

definition linked_courses :: "db \<Rightarrow> nat \<Rightarrow> school \<Rightarrow> nat" where
  "linked_courses d category_id sch =
     length (filter (\<lambda>c. c_school c = sc_id sch \<and> c_category c = Some category_id)
                    (db_courses d))"

text \<open>
  Two categories; school 1 has one course in category 1, school 2 one course in category 2.
\<close>

definition db_categories_example :: db where
  "db_categories_example = empty_db\<lparr>
     db_categories := [\<lparr>cat_id = 1, cat_name = ''Math''\<rparr>, \<lparr>cat_id = 2, cat_name = ''Art''\<rparr>],
     db_courses := [\<lparr>c_id = 1, c_school = 1, c_category = Some 1\<rparr>,
                    \<lparr>c_id = 2, c_school = 2, c_category = Some 2\<rparr>]\<rparr>"

definition admin1 :: school_user where
  "admin1 = \<lparr>su_id = 1, su_user = 1, su_school = 1, su_role = ''admin''\<rparr>"

definition post_request :: "(field \<Rightarrow> string option) \<Rightarrow> request" where
  "post_request form = \<lparr>req_user = Some 50, req_method = ''POST'', req_POST = form,
     req_FILES = (\<lambda>_. None)\<rparr>"

section \<open>Marking a lesson complete (core/helpers.py, mark_lesson_as_completed)\<close>

text \<open>
  \<open>Progress.objects.get_or_create(student=, course=, lesson=, defaults=...)\<close>: the
  lookup is by all three columns. One match is returned, several raise. With no match a
  row is inserted, which the unique constraint on (student, lesson) rejects when the
  student already has a row for the lesson under some other course; the lookup is then
  repeated, still finds nothing, and the IntegrityError is raised again.
\<close>

definition progress_get_or_create ::
  "db \<Rightarrow> int \<Rightarrow> nat \<Rightarrow> nat \<Rightarrow> nat \<Rightarrow> bool \<Rightarrow> nat \<Rightarrow> int option \<Rightarrow>
   py_error + (db \<times> progress \<times> bool)" where
  "progress_get_or_create d now student crs lsn dflt_completed dflt_percentage dflt_completed_at =
     (case filter (\<lambda>p. p_student p = student \<and> p_course p = crs \<and> p_lesson p = lsn)
                  (db_progresses d) of
        [] \<Rightarrow>
          if \<exists>p \<in> set (db_progresses d). p_student p = student \<and> p_lesson p = lsn
          then Inl IntegrityError
          else
            let p = \<lparr>p_id = fresh_id (map p_id (db_progresses d)), p_student = student,
                     p_course = crs, p_lesson = lsn, p_is_completed = dflt_completed,
                     p_progress_percentage = dflt_percentage, p_started_at = now,
                     p_completed_at = dflt_completed_at, p_last_accessed = now\<rparr>
            in Inr (d\<lparr>db_progresses := db_progresses d @ [p]\<rparr>, p, True)
      | [p] \<Rightarrow> Inr (d, p, False)
      | _ \<Rightarrow> Inl MultipleObjectsReturned)"

text \<open>\<open>progress.save()\<close>: the row with this primary key is overwritten.\<close>

definition save_progress :: "db \<Rightarrow> int \<Rightarrow> progress \<Rightarrow> db" where
  "save_progress d now p =
     d\<lparr>db_progresses := map (\<lambda>q. if p_id q = p_id p then p\<lparr>p_last_accessed := now\<rparr> else q)
                              (db_progresses d)\<rparr>"

definition mark_lesson_as_completed ::
  "db \<Rightarrow> int \<Rightarrow> nat \<Rightarrow> nat \<Rightarrow> nat \<Rightarrow> py_error + (db \<times> progress)" where
  "mark_lesson_as_completed d now student crs lsn =
     (case progress_get_or_create d now student crs lsn True 100 (Some now) of
        Inl e \<Rightarrow> Inl e
      | Inr (d1, progress, _) \<Rightarrow>
          let progress = progress\<lparr>p_is_completed := True, p_progress_percentage := 100,
                                  p_completed_at := Some now\<rparr>
          in Inr (save_progress d1 now progress, progress\<lparr>p_last_accessed := now\<rparr>))"

text \<open>The Progress rows of a student for a lesson, whatever the course.\<close>

definition progress_rows :: "db \<Rightarrow> nat \<Rightarrow> nat \<Rightarrow> progress list" where
  "progress_rows d student lsn =
     filter (\<lambda>p. p_student p = student \<and> p_lesson p = lsn) (db_progresses d)"

text \<open>
  Student 5 opened lesson 1 through course 2 and left it unfinished: the row that
  \<open>lesson_progress_update\<close> creates for \<open>{"is_completed": false}\<close>.
\<close>

definition db_other_course :: db where
  "db_other_course = empty_db\<lparr>
     db_progresses := [\<lparr>p_id = 1, p_student = 5, p_course = 2, p_lesson = 1,
        p_is_completed = False, p_progress_percentage = 0, p_started_at = 0,
        p_completed_at = None, p_last_accessed = 0\<rparr>]\<rparr>"

section \<open>Python's \<open>int()\<close> and \<open>float()\<close> on strings\<close>

text \<open>
  Both constructors strip surrounding whitespace, accept one sign, and read decimal digits
  in which single underscores may separate digits; anything else raises ValueError
  (\<open>None\<close> below). \<open>float()\<close> also reads a fraction, an exponent, and the spellings
  \<open>inf\<close>, \<open>infinity\<close> and \<open>nan\<close> in any letter case. A finite literal is taken
  as the rational it denotes.
\<close>

datatype float_lit = Finite rat | NonFinite

definition is_space :: "char \<Rightarrow> bool" where
  "is_space c \<longleftrightarrow> c \<in> set [CHR '' '', CHR 0x09, CHR 0x0A, CHR 0x0B, CHR 0x0C, CHR 0x0D]"

definition py_strip :: "string \<Rightarrow> string" where
  "py_strip s = rev (dropWhile is_space (rev (dropWhile is_space s)))"

definition digit_val :: "char \<Rightarrow> nat option" where
  "digit_val c = (let n = (of_char c :: nat) in if 48 \<le> n \<and> n \<le> 57 then Some (n - 48) else None)"

definition to_lower :: "char \<Rightarrow> char" where
  "to_lower c = (let n = (of_char c :: nat) in if 65 \<le> n \<and> n \<le> 90 then char_of (n + 32) else c)"

text \<open>
  \<open>scan_digits acc k s\<close> continues a digit run whose value so far is \<open>acc\<close> over
  \<open>k\<close> digits, and returns the value, the number of digits and the unread rest.
\<close>

fun scan_digits :: "nat \<Rightarrow> nat \<Rightarrow> string \<Rightarrow> nat \<times> nat \<times> string" where
  "scan_digits acc k [] = (acc, k, [])"
| "scan_digits acc k [c] =
     (case digit_val c of Some v \<Rightarrow> (acc * 10 + v, Suc k, []) | None \<Rightarrow> (acc, k, [c]))"
| "scan_digits acc k (c # c' # cs) =
     (case digit_val c of
        Some v \<Rightarrow> scan_digits (acc * 10 + v) (Suc k) (c' # cs)
      | None \<Rightarrow>
          (if c = CHR ''_''
           then (case digit_val c' of
                   Some v \<Rightarrow> scan_digits (acc * 10 + v) (Suc k) cs
                 | None \<Rightarrow> (acc, k, c # c' # cs))
           else (acc, k, c # c' # cs)))"

definition digitpart :: "string \<Rightarrow> (nat \<times> nat \<times> string) option" where
  "digitpart s =
     (case s of
        [] \<Rightarrow> None
      | c # cs \<Rightarrow> (case digit_val c of None \<Rightarrow> None | Some v \<Rightarrow> Some (scan_digits v 1 cs)))"

definition split_sign :: "string \<Rightarrow> bool \<times> string" where
  "split_sign s =
     (case s of
        [] \<Rightarrow> (False, [])
      | c # cs \<Rightarrow> if c = CHR ''-'' then (True, cs) else if c = CHR ''+'' then (False, cs)
                 else (False, c # cs))"

definition py_int :: "string \<Rightarrow> int option" where
  "py_int s =
     (let (neg, body) = split_sign (py_strip s)
      in case digitpart body of
           Some (n, _, []) \<Rightarrow> Some (if neg then - int n else int n)
         | _ \<Rightarrow> None)"

definition mantissa :: "string \<Rightarrow> (rat \<times> string) option" where
  "mantissa s =
     (case digitpart s of
        Some (i, _, rest) \<Rightarrow>
          (case rest of
             [] \<Rightarrow> Some (of_nat i, [])
           | c # rest2 \<Rightarrow>
               if c = CHR ''.''
               then (case digitpart rest2 of
                       Some (f, k, rest3) \<Rightarrow> Some (of_nat i + of_nat f / 10 ^ k, rest3)
                     | None \<Rightarrow> Some (of_nat i, rest2))
               else Some (of_nat i, rest))
      | None \<Rightarrow>
          (case s of
             [] \<Rightarrow> None
           | c # rest2 \<Rightarrow>
               if c = CHR ''.''
               then (case digitpart rest2 of
                       Some (f, k, rest3) \<Rightarrow> Some (of_nat f / 10 ^ k, rest3)
                     | None \<Rightarrow> None)
               else None))"

definition exponent :: "string \<Rightarrow> rat option" where
  "exponent s =
     (case s of
        [] \<Rightarrow> Some 1
      | c # cs \<Rightarrow>
          if to_lower c = CHR ''e''
          then (let (neg, body) = split_sign cs
                in case digitpart body of
                     Some (n, _, []) \<Rightarrow> Some (if neg then 1 / 10 ^ n else 10 ^ n)
                   | _ \<Rightarrow> None)
          else None)"

definition py_float :: "string \<Rightarrow> float_lit option" where
  "py_float s =
     (let (neg, body) = split_sign (py_strip s)
      in if map to_lower body \<in> set [''inf'', ''infinity'', ''nan''] then Some NonFinite
         else case mantissa body of
                None \<Rightarrow> None
              | Some (m, rest) \<Rightarrow>
                  (case exponent rest of
                     None \<Rightarrow> None
                   | Some e \<Rightarrow> Some (Finite ((if neg then - m else m) * e))))"

text \<open>Float addition: anything added to an infinity or a NaN is again not finite.\<close>

fun fl_add :: "float_lit \<Rightarrow> float_lit \<Rightarrow> float_lit" where
  "fl_add (Finite a) (Finite b) = Finite (a + b)"
| "fl_add _ _ = NonFinite"

section \<open>Grading an attempt (core/assessments_views.py, grade_attempt)\<close>

text \<open>
  \<open>get_object_or_404(Attempt, id=attempt_id, assessment_id=assessment_id,
  assessment__course__school=school)\<close>.
\<close>

definition get_attempt_of_school :: "db \<Rightarrow> nat \<Rightarrow> nat \<Rightarrow> school \<Rightarrow> attempt option" where
  "get_attempt_of_school d attempt_id assessment_id sch =
     find (\<lambda>t. at_id t = attempt_id \<and> at_assessment t = assessment_id \<and>
                (\<exists>a \<in> set (db_assessments d). a_id a = at_assessment t \<and>
                   (\<exists>c \<in> set (db_courses d). c_id c = a_course a \<and> c_school c = sc_id sch)))
          (db_attempts d)"

text \<open>
  \<open>attempt.answers.select_related("question")\<close>: the attempt's Answer rows, each joined
  with its question.
\<close>

definition answers_with_question :: "db \<Rightarrow> attempt \<Rightarrow> (answer \<times> question) list" where
  "answers_with_question d t =
     [(a, q). a \<leftarrow> db_answers d, an_attempt a = at_id t, q \<leftarrow> db_questions d,
              q_id q = an_question a]"

text \<open>\<open>attempt.save()\<close>: the row with this primary key is overwritten.\<close>

definition save_attempt :: "db \<Rightarrow> attempt \<Rightarrow> db" where
  "save_attempt d t =
     d\<lparr>db_attempts := map (\<lambda>x. if at_id x = at_id t then t else x) (db_attempts d)\<rparr>"

fun grade_loop ::
  "(field \<Rightarrow> string option) \<Rightarrow> (answer \<times> question) list \<Rightarrow> float_lit \<Rightarrow> py_error + float_lit"
  where
  "grade_loop post [] total_score = Inr total_score"
| "grade_loop post ((ans, q) # rest) total_score =
     (let question_points = q_points q
      in if q_type q \<in> set [''multiple_choice'', ''true_false'']
         then (if an_is_correct ans
               then grade_loop post rest (fl_add total_score (Finite question_points))
               else grade_loop post rest total_score)
         else if q_type q \<in> set [''essay'', ''file'']
         then (case post (GradeField (an_id ans)) of
                 None \<Rightarrow> grade_loop post rest total_score
               | Some grade_value \<Rightarrow>
                   if grade_value = [] then grade_loop post rest total_score
                   else (case py_float grade_value of
                           None \<Rightarrow> Inl ValueError
                         | Some g \<Rightarrow> grade_loop post rest (fl_add total_score g)))
         else grade_loop post rest total_score)"

text \<open>
  Saving a score that is an infinity or a NaN fails in the Decimal conversion of the
  field; a finite score is stored as it is.
\<close>

definition grade_attempt ::
  "db \<Rightarrow> request \<Rightarrow> string \<Rightarrow> nat \<Rightarrow> nat \<Rightarrow> school_user \<Rightarrow> school \<Rightarrow> unit outcome" where
  "grade_attempt d req slug assessment_id attempt_id su sch =
     (case get_attempt_of_school d attempt_id assessment_id sch of
        None \<Rightarrow> Inr (d, [], Http404)
      | Some t \<Rightarrow>
          let answers = answers_with_question d t
          in if req_method req = ''POST''
             then (case grade_loop (req_POST req) answers (Finite 0) of
                     Inl e \<Rightarrow> Inl e
                   | Inr NonFinite \<Rightarrow> Inl DecimalError
                   | Inr (Finite total_score) \<Rightarrow>
                       Inr (save_attempt d (t\<lparr>at_score := Some (py_round total_score 2),
                                               at_is_submitted := True\<rparr>), [],
                            Redirect (AssessmentSubmissions (sc_slug sch) assessment_id)))
             else Inr (d, [], Render ''assessments/grade_attempt'' ()))"







text \<open>
  Student 5's submitted attempt 1 on assessment 1: a multiple-choice question worth 2
  points answered correctly, and an essay question worth 5 points awaiting a grade.
\<close>

definition db_graded :: db where
  "db_graded = db_start\<lparr>
     db_questions := [\<lparr>q_id = 1, q_assessment = 1, q_type = ''multiple_choice'', q_order = 1,
                       q_points = 2\<rparr>,
                      \<lparr>q_id = 2, q_assessment = 1, q_type = ''essay'', q_order = 2,
                       q_points = 5\<rparr>],
     db_choices := [\<lparr>ch_id = 1, ch_question = 1, ch_is_correct = True\<rparr>,
                    \<lparr>ch_id = 2, ch_question = 1, ch_is_correct = False\<rparr>],
     db_attempts := [\<lparr>at_id = 1, at_student = 5, at_assessment = 1, at_started_at = 10,
                      at_finished_at = Some 20, at_score = Some 2, at_is_submitted = True,
                      at_attempt_number = 1\<rparr>],
     db_answers := [\<lparr>an_id = 1, an_attempt = 1, an_question = 1, an_choice = Some 1,
                     an_text_answer = [], an_file_answer = None, an_is_correct = True\<rparr>,
                    \<lparr>an_id = 2, an_attempt = 1, an_question = 2, an_choice = None,
                     an_text_answer = ''text'', an_file_answer = None, an_is_correct = False\<rparr>]\<rparr>"

section \<open>Parsing numeric form fields (assessment_create, question_edit)\<close>

text \<open>
  \<open>conv(raw) if raw not in (None, "") else default\<close>: a missing or empty field takes the
  default; any other text goes through the conversion, whose ValueError is not caught.
\<close>

definition convert_or_default :: "string option \<Rightarrow> (string \<Rightarrow> 'a option) \<Rightarrow> 'a \<Rightarrow> py_error + 'a" where
  "convert_or_default raw conv dflt =
     (case raw of
        None \<Rightarrow> Inr dflt
      | Some s \<Rightarrow> if s = [] then Inr dflt
                  else (case conv s of None \<Rightarrow> Inl ValueError | Some v \<Rightarrow> Inr v))"

text \<open>\<open>request.POST.get(name) or None\<close>.\<close>

definition or_None :: "string option \<Rightarrow> string option" where
  "or_None raw = (case raw of None \<Rightarrow> None | Some s \<Rightarrow> if s = [] then None else Some s)"

text \<open>
  \<open>Assessment.objects.create(...)\<close>. The fields are prepared in declaration order: a
  weight that is not finite fails the Decimal conversion, a date text the field cannot
  read is a ValidationError (\<open>parse_datetime\<close> stands for the \<open>DateTimeField\<close>
  parser of the framework), and a negative value in a \<open>PositiveIntegerField\<close> is
  rejected by the database.
\<close>

definition create_assessment ::
  "(string \<Rightarrow> int option) \<Rightarrow> db \<Rightarrow> course \<Rightarrow> nat option \<Rightarrow> string \<Rightarrow> float_lit \<Rightarrow> int \<Rightarrow>
   int option \<Rightarrow> string option \<Rightarrow> string option \<Rightarrow> py_error + db" where
  "create_assessment parse_datetime d crs subj title weight attempts time_limit open_at close_at =
     (case weight of
        NonFinite \<Rightarrow> Inl DecimalError
      | Finite w \<Rightarrow>
          if (case open_at of None \<Rightarrow> False | Some s \<Rightarrow> parse_datetime s = None) \<or>
             (case close_at of None \<Rightarrow> False | Some s \<Rightarrow> parse_datetime s = None)
          then Inl ValidationError
          else if attempts < 0 \<or> (case time_limit of None \<Rightarrow> False | Some n \<Rightarrow> n < 0)
          then Inl IntegrityError
          else Inr (d\<lparr>db_assessments := db_assessments d @
                 [\<lparr>a_id = fresh_id (map a_id (db_assessments d)), a_course = c_id crs,
                   a_subject = subj, a_title = title, a_weight = w,
                   a_attempts_allowed = nat attempts,
                   a_time_limit = map_option nat time_limit,
                   a_open_at = (case open_at of None \<Rightarrow> None | Some s \<Rightarrow> parse_datetime s),
                   a_close_at = (case close_at of None \<Rightarrow> None | Some s \<Rightarrow> parse_datetime s)\<rparr>]\<rparr>))"

definition assessment_create ::
  "(string \<Rightarrow> int option) \<Rightarrow> db \<Rightarrow> request \<Rightarrow> string \<Rightarrow> nat \<Rightarrow> school_user \<Rightarrow> school \<Rightarrow>
   unit outcome" where
  "assessment_create parse_datetime d req slug course_id su sch =
     (case find (\<lambda>c. c_id c = course_id \<and> c_school c = sc_id sch) (db_courses d) of
        None \<Rightarrow> Inr (d, [], Http404)
      | Some crs \<Rightarrow>
          let subjects = filter (\<lambda>s. s_course s = c_id crs) (db_subjects d)
          in if req_method req = ''POST''
             then
               (case req_POST req (Named ''title'') of
                  None \<Rightarrow> Inl KeyError
                | Some title \<Rightarrow>
                    let subject_id = req_POST req (Named ''subject'');
                        weight_raw = req_POST req (Named ''weight'')
                    in case convert_or_default weight_raw py_float (Finite 0) of
                         Inl e \<Rightarrow> Inl e
                       | Inr weight \<Rightarrow>
                    let attempts_raw = req_POST req (Named ''attempts_allowed'')
                    in case convert_or_default attempts_raw py_int 1 of
                         Inl e \<Rightarrow> Inl e
                       | Inr attempts \<Rightarrow>
                    let time_limit_raw = req_POST req (Named ''time_limit'')
                    in case convert_or_default time_limit_raw (map_option Some \<circ> py_int) None of
                         Inl e \<Rightarrow> Inl e
                       | Inr time_limit \<Rightarrow>
                    let open_at = or_None (req_POST req (Named ''open_at''));
                        close_at = or_None (req_POST req (Named ''close_at''))
                    in case convert_or_default subject_id
                              (\<lambda>s. map_option (\<lambda>i. map_option s_id
                                      (find (\<lambda>s. int (s_id s) = i) subjects)) (py_int s)) None of
                         Inl e \<Rightarrow> Inl e
                       | Inr subj \<Rightarrow>
                    (case create_assessment parse_datetime d crs subj title weight attempts
                            time_limit open_at close_at of
                       Inl e \<Rightarrow> Inl e
                     | Inr d' \<Rightarrow> Inr (d', [], Redirect (AssessmentList (sc_slug sch) (c_id crs)))))
             else Inr (d, [], Render ''assessments/assessment_create'' ()))"

text \<open>
  \<open>question_edit\<close>: the conversions of \<open>order\<close> and \<open>points\<close> sit in
  \<open>try ... except ValueError: pass\<close>, so a text that does not convert leaves the stored
  value; a missing field converts the stored value itself. \<open>question.save()\<close> fails as
  above on a value that is not finite or is negative.
\<close>

definition get_question_of_school :: "db \<Rightarrow> nat \<Rightarrow> school \<Rightarrow> question option" where
  "get_question_of_school d question_id sch =
     find (\<lambda>q. q_id q = question_id \<and>
                (\<exists>a \<in> set (db_assessments d). a_id a = q_assessment q \<and>
                   (\<exists>c \<in> set (db_courses d). c_id c = a_course a \<and> c_school c = sc_id sch)))
          (db_questions d)"

definition question_edit ::
  "db \<Rightarrow> request \<Rightarrow> string \<Rightarrow> nat \<Rightarrow> school_user \<Rightarrow> school \<Rightarrow> unit outcome" where
  "question_edit d req slug question_id su sch =
     (case get_question_of_school d question_id sch of
        None \<Rightarrow> Inr (d, [], Http404)
      | Some question \<Rightarrow>
          if req_method req = ''POST''
          then
            let qtype = (case req_POST req (Named ''type'') of None \<Rightarrow> q_type question | Some s \<Rightarrow> s);
                order = (case req_POST req (Named ''order'') of
                           None \<Rightarrow> int (q_order question)
                         | Some s \<Rightarrow> (case py_int s of None \<Rightarrow> int (q_order question)
                                       | Some i \<Rightarrow> i));
                points = (case req_POST req (Named ''points'') of
                            None \<Rightarrow> Finite (q_points question)
                          | Some s \<Rightarrow> (case py_float s of None \<Rightarrow> Finite (q_points question)
                                        | Some p \<Rightarrow> p))
            in case points of
                 NonFinite \<Rightarrow> Inl DecimalError
               | Finite p \<Rightarrow>
                   if order < 0 then Inl IntegrityError
                   else
                     let question = question\<lparr>q_type := qtype, q_order := nat order, q_points := p\<rparr>
                     in Inr (d\<lparr>db_questions := map (\<lambda>x. if q_id x = q_id question then question
                                                          else x) (db_questions d)\<rparr>, [],
                             Redirect (QuestionList (sc_slug sch) (q_assessment question)))
          else Inr (d, [], Render ''assessments/question_edit'' ()))"

definition malformed_grade_form :: "field \<Rightarrow> string option" where
  "malformed_grade_form = map_of [(GradeField 2, ''abc'')]"

definition malformed_weight_form :: "field \<Rightarrow> string option" where
  "malformed_weight_form = map_of [(Named ''title'', ''Quiz''), (Named ''weight'', ''abc'')]"

definition malformed_question_form :: "field \<Rightarrow> string option" where
  "malformed_question_form = map_of [(Named ''order'', ''abc''), (Named ''points'', ''x'')]"

section \<open>Assessment statistics (core/assessments_views.py, assessment_stats)\<close>









section \<open>Taking an assessment (core/assessments_views.py, assessment_take)\<close>

















definition stored_answers :: "'c outcome \<Rightarrow> (nat \<times> nat option \<times> bool) list option" where
  "stored_answers res =
     (case res of
        Inl e \<Rightarrow> None
      | Inr (d, ms, r) \<Rightarrow>
          Some (map (\<lambda>x. (an_question x, an_choice x, an_is_correct x)) (db_answers d)))"










section \<open>Proofs: course progress\<close>








section \<open>Proofs: starting an attempt\<close>

lemma start_allowed_iff:
  "start_allowed d now su a \<longleftrightarrow>
     \<not> (su_role su \<noteq> ''student'') \<and>
     (\<exists>e \<in> set (db_enrollments d). e_course e = a_course a \<and> e_student e = su_id su) \<and>
     \<not> (length (filter (\<lambda>t. at_assessment t = a_id a \<and> at_student t = su_id su)
                      (db_attempts d)) \<ge> a_attempts_allowed a) \<and>
     \<not> (case a_open_at a of None \<Rightarrow> False | Some t \<Rightarrow> now < t) \<and>
     \<not> (case a_close_at a of None \<Rightarrow> False | Some t \<Rightarrow> now > t)"
  unfolding start_allowed_def by (auto split: option.splits)

text \<open>
  C3. A start request for an assessment of the school appends exactly one new, unsubmitted
  Attempt row of the requester and redirects to the take page if and only if the four
  guards hold (role student, enrolled in the assessment's course, fewer attempts than
  attempts_allowed, time inside the optional open/close bounds); when a guard fails the
  database is unchanged and the response is a redirect to the detail page. An unknown
  assessment is a 404 that changes nothing.
\<close>

theorem assessment_start_guard:
  "(case get_assessment d assessment_id sch of
      None \<Rightarrow> assessment_start d now req slug assessment_id su sch = Inr (d, [], Http404)
    | Some a \<Rightarrow>
        (if start_allowed d now su a
         then \<exists>t. assessment_start d now req slug assessment_id su sch =
                     Inr (d\<lparr>db_attempts := db_attempts d @ [t]\<rparr>, [],
                          Redirect (AssessmentTake (sc_slug sch) (a_id a) (at_id t))) \<and>
                  at_student t = su_id su \<and> at_assessment t = a_id a \<and>
                  \<not> at_is_submitted t \<and> at_score t = None
         else assessment_start d now req slug assessment_id su sch =
                Inr (d, [], Redirect (AssessmentDetail (sc_slug sch) (a_id a)))))"
proof (cases "get_assessment d assessment_id sch")
  case None
  then show ?thesis by (simp add: assessment_start_def)
next
  case (Some a)
  show ?thesis
  proof (cases "start_allowed d now su a")
    case True
    let ?n = "length (filter (\<lambda>t. at_assessment t = a_id a \<and> at_student t = su_id su)
                (db_attempts d))"
    let ?t = "\<lparr>at_id = fresh_id (map at_id (db_attempts d)),
                at_student = su_id su, at_assessment = a_id a,
                at_started_at = now, at_finished_at = None,
                at_score = None, at_is_submitted = False,
                at_attempt_number = ?n + 1\<rparr>"
    from True Some have "assessment_start d now req slug assessment_id su sch =
        Inr (d\<lparr>db_attempts := db_attempts d @ [?t]\<rparr>, [],
             Redirect (AssessmentTake (sc_slug sch) (a_id a) (at_id ?t)))"
      unfolding start_allowed_iff by (simp add: assessment_start_def Let_def)
    then have "\<exists>t. assessment_start d now req slug assessment_id su sch =
                     Inr (d\<lparr>db_attempts := db_attempts d @ [t]\<rparr>, [],
                          Redirect (AssessmentTake (sc_slug sch) (a_id a) (at_id t))) \<and>
                  at_student t = su_id su \<and> at_assessment t = a_id a \<and>
                  \<not> at_is_submitted t \<and> at_score t = None"
      by (intro exI[of _ ?t]) simp
    with True Some show ?thesis by simp
  next
    case False
    then have "assessment_start d now req slug assessment_id su sch =
                Inr (d, [], Redirect (AssessmentDetail (sc_slug sch) (a_id a)))"
      using Some unfolding start_allowed_iff
      by (simp add: assessment_start_def Let_def) blast
    with False Some show ?thesis by simp
  qed
qed

lemma get_assessment_db_start:
  "get_assessment d' 1 sch1 = Some \<lparr>a_id = 1, a_course = 1, a_subject = None,
      a_title = ''quiz'', a_weight = 10, a_attempts_allowed = 2, a_time_limit = None,
      a_open_at = None, a_close_at = Some 100\<rparr>"
  if "db_assessments d' = db_assessments db_start" "db_courses d' = db_courses db_start"
  using that by (simp add: get_assessment_def db_start_def empty_db_def sch1_def)

theorem assessment_start_guard_witness:
  "assessment_start (db_start\<lparr>db_attempts := [used_attempt 1, used_attempt 2]\<rparr>) 50
       get_request ''s1'' 1 student5 sch1
     = Inr (db_start\<lparr>db_attempts := [used_attempt 1, used_attempt 2]\<rparr>, [],
            Redirect (AssessmentDetail ''s1'' 1)) \<and>
   assessment_start db_start 101 get_request ''s1'' 1 student5 sch1
     = Inr (db_start, [], Redirect (AssessmentDetail ''s1'' 1)) \<and>
   (\<exists>t. assessment_start db_start 50 get_request ''s1'' 1 student5 sch1
     = Inr (db_start\<lparr>db_attempts := [t]\<rparr>, [], Redirect (AssessmentTake ''s1'' 1 (at_id t))))"
proof -
  let ?d2 = "db_start\<lparr>db_attempts := [used_attempt 1, used_attempt 2]\<rparr>"
  let ?a = "\<lparr>a_id = 1, a_course = 1, a_subject = None,
      a_title = ''quiz'', a_weight = 10, a_attempts_allowed = 2, a_time_limit = None,
      a_open_at = None, a_close_at = Some 100\<rparr>"
  have g2: "get_assessment ?d2 1 sch1 = Some ?a" by (rule get_assessment_db_start) simp_all
  have g: "get_assessment db_start 1 sch1 = Some ?a" by (rule get_assessment_db_start) simp_all
  have n2: "\<not> start_allowed ?d2 50 student5 ?a"
    by (simp add: start_allowed_def used_attempt_def student5_def)
  have n1: "\<not> start_allowed db_start 101 student5 ?a"
    by (simp add: start_allowed_def)
  have y: "start_allowed db_start 50 student5 ?a"
    by (simp add: start_allowed_def db_start_def empty_db_def student5_def)
  have s: "sc_slug sch1 = ''s1''" by (simp add: sch1_def)
  have "db_attempts db_start = []" by (simp add: db_start_def empty_db_def)
  then have e: "db_start\<lparr>db_attempts := db_attempts db_start @ [t]\<rparr> = db_start\<lparr>db_attempts := [t]\<rparr>" for t
    by simp
  have r1: "assessment_start ?d2 50 get_request ''s1'' 1 student5 sch1 =
      Inr (?d2, [], Redirect (AssessmentDetail ''s1'' 1))"
    using assessment_start_guard[where d = ?d2 and assessment_id = 1 and sch = sch1 and
        now = 50 and req = get_request and slug = "''s1''" and su = student5] n2
    unfolding g2 by (simp add: s)
  have r2: "assessment_start db_start 101 get_request ''s1'' 1 student5 sch1 =
      Inr (db_start, [], Redirect (AssessmentDetail ''s1'' 1))"
    using assessment_start_guard[where d = db_start and assessment_id = 1 and sch = sch1 and
        now = 101 and req = get_request and slug = "''s1''" and su = student5] n1
    unfolding g by (simp add: s)
  have r3: "\<exists>t. assessment_start db_start 50 get_request ''s1'' 1 student5 sch1
     = Inr (db_start\<lparr>db_attempts := [t]\<rparr>, [], Redirect (AssessmentTake ''s1'' 1 (at_id t)))"
    using assessment_start_guard[where d = db_start and assessment_id = 1 and sch = sch1 and
        now = 50 and req = get_request and slug = "''s1''" and su = student5] y
    unfolding g by (simp add: s e) blast
  from r1 r2 r3 show ?thesis by (intro conjI)
qed

section \<open>Proofs: deleting a category\<close>

lemma linked_courses_eq:
  "find (\<lambda>c. cat_id c = category_id) (db_categories d) = Some cat \<Longrightarrow>
   length (filter (\<lambda>c. c_category c = Some (cat_id cat) \<and> c_school c = sc_id sch) (db_courses d))
     = linked_courses d category_id sch"
proof -
  assume "find (\<lambda>c. cat_id c = category_id) (db_categories d) = Some cat"
  then have "cat_id cat = category_id" by (auto simp: find_Some_iff)
  then show ?thesis
    unfolding linked_courses_def
    by (intro arg_cong[where f = length] filter_cong) auto
qed

text \<open>
  C8. A POST to delete an existing category: when no course of the current school is
  linked to it, no row with that id remains, the other categories are kept, and the
  success message is given; when at least one is linked, the database is unchanged and
  the warning message carries the number of linked courses.
\<close>

theorem category_delete_post:
  assumes "find (\<lambda>c. cat_id c = category_id) (db_categories d) = Some cat"
    and "req_method req = ''POST''"
  shows "(linked_courses d category_id sch = 0 \<longrightarrow>
            (\<exists>d'. category_delete d req slug category_id su sch =
                     Inr (d', [CategoryDeleted (cat_name cat)], Redirect (CategoryList slug)) \<and>
                   db_categories d' = filter (\<lambda>c. cat_id c \<noteq> category_id) (db_categories d) \<and>
                   category_id \<notin> cat_id ` set (db_categories d'))) \<and>
         (linked_courses d category_id sch \<ge> 1 \<longrightarrow>
            category_delete d req slug category_id su sch =
              Inr (d, [CategoryHasCourses (cat_name cat) (linked_courses d category_id sch)],
                   Redirect (CategoryList slug)))"
proof -
  from assms(1) have id: "cat_id cat = category_id" by (auto simp: find_Some_iff)
  note n = linked_courses_eq[OF assms(1), of sch]
  show ?thesis
  proof (cases "linked_courses d category_id sch = 0")
    case True
    then have "category_delete d req slug category_id su sch =
        Inr (delete_category d cat, [CategoryDeleted (cat_name cat)], Redirect (CategoryList slug))"
      using assms n by (simp add: category_delete_def Let_def)
    moreover have "db_categories (delete_category d cat) =
        filter (\<lambda>c. cat_id c \<noteq> category_id) (db_categories d)"
      by (simp add: delete_category_def id)
    moreover have "category_id \<notin> cat_id ` set (db_categories (delete_category d cat))"
      by (auto simp: delete_category_def id)
    ultimately show ?thesis using True by simp
  next
    case False
    then have "category_delete d req slug category_id su sch =
              Inr (d, [CategoryHasCourses (cat_name cat) (linked_courses d category_id sch)],
                   Redirect (CategoryList slug))"
      using assms n by (simp add: category_delete_def Let_def)
    with False show ?thesis by simp
  qed
qed

theorem category_delete_post_witness:
  "category_delete db_categories_example (post_request (\<lambda>_. None)) ''s1'' 1 admin1 sch1 =
     Inr (db_categories_example, [CategoryHasCourses ''Math'' 1], Redirect (CategoryList ''s1'')) \<and>
   (\<exists>d'. category_delete db_categories_example (post_request (\<lambda>_. None)) ''s1'' 2 admin1 sch1 =
           Inr (d', [CategoryDeleted ''Art''], Redirect (CategoryList ''s1'')) \<and>
         db_categories d' = [\<lparr>cat_id = 1, cat_name = ''Math''\<rparr>])"
proof -
  let ?req = "post_request (\<lambda>_. None)"
  have m: "req_method ?req = ''POST''" by (simp add: post_request_def)
  have f1: "find (\<lambda>c. cat_id c = 1) (db_categories db_categories_example) =
      Some \<lparr>cat_id = 1, cat_name = ''Math''\<rparr>"
    by (simp add: db_categories_example_def empty_db_def)
  have f2: "find (\<lambda>c. cat_id c = 2) (db_categories db_categories_example) =
      Some \<lparr>cat_id = 2, cat_name = ''Art''\<rparr>"
    by (simp add: db_categories_example_def empty_db_def)
  have l1: "linked_courses db_categories_example 1 sch1 = 1"
    by (simp add: linked_courses_def db_categories_example_def empty_db_def sch1_def)
  have l2: "linked_courses db_categories_example 2 sch1 = 0"
    by (simp add: linked_courses_def db_categories_example_def empty_db_def sch1_def)
  have "category_delete db_categories_example ?req ''s1'' 1 admin1 sch1 =
     Inr (db_categories_example, [CategoryHasCourses ''Math'' 1], Redirect (CategoryList ''s1''))"
    using category_delete_post[OF f1 m, of sch1 "''s1''" admin1] l1 by simp
  moreover have "\<exists>d'. category_delete db_categories_example ?req ''s1'' 2 admin1 sch1 =
           Inr (d', [CategoryDeleted ''Art''], Redirect (CategoryList ''s1'')) \<and>
         db_categories d' = [\<lparr>cat_id = 1, cat_name = ''Math''\<rparr>]"
  proof -
    have c: "filter (\<lambda>c. cat_id c \<noteq> 2) (db_categories db_categories_example) =
        [\<lparr>cat_id = 1, cat_name = ''Math''\<rparr>]"
      by (simp add: db_categories_example_def empty_db_def)
    from category_delete_post[OF f2 m, of sch1 "''s1''" admin1] l2
    obtain d' where "category_delete db_categories_example ?req ''s1'' 2 admin1 sch1 =
           Inr (d', [CategoryDeleted ''Art''], Redirect (CategoryList ''s1''))"
      and "db_categories d' = filter (\<lambda>c. cat_id c \<noteq> 2) (db_categories db_categories_example)"
      by auto
    with c show ?thesis by auto
  qed
  ultimately show ?thesis by (intro conjI)
qed

section \<open>Proofs: marking a lesson complete\<close>

text \<open>
  C6 fails on the code. The student's only Progress row for lesson 1 was recorded under
  course 2; marking the lesson complete through course 1 looks the row up by (student,
  course, lesson), finds none, and the insert violates the unique constraint on (student,
  lesson). Both calls raise, and the stored row stays at 0 percent, not completed.
\<close>

theorem mark_lesson_as_completed_other_course:
  "mark_lesson_as_completed db_other_course 10 5 1 1 = Inl IntegrityError \<and>
   mark_lesson_as_completed db_other_course 11 5 1 1 = Inl IntegrityError \<and>
   wf_progress db_other_course \<and>
   map (\<lambda>p. (p_course p, p_is_completed p, p_progress_percentage p))
       (progress_rows db_other_course 5 1) = [(2, False, 0)]"
  by (simp add: mark_lesson_as_completed_def progress_get_or_create_def db_other_course_def
      empty_db_def wf_progress_def progress_key_def progress_rows_def)

section \<open>Proofs: grading an attempt\<close>




lemma db_graded_attempt:
  "get_attempt_of_school db_graded 1 1 sch1 =
     Some \<lparr>at_id = 1, at_student = 5, at_assessment = 1, at_started_at = 10,
           at_finished_at = Some 20, at_score = Some 2, at_is_submitted = True,
           at_attempt_number = 1\<rparr>"
  by (simp add: get_attempt_of_school_def db_graded_def db_start_def empty_db_def sch1_def)

lemma db_graded_answers:
  "answers_with_question db_graded
     \<lparr>at_id = 1, at_student = 5, at_assessment = 1, at_started_at = 10,
      at_finished_at = Some 20, at_score = Some 2, at_is_submitted = True,
      at_attempt_number = 1\<rparr> =
   [(\<lparr>an_id = 1, an_attempt = 1, an_question = 1, an_choice = Some 1,
      an_text_answer = [], an_file_answer = None, an_is_correct = True\<rparr>,
     \<lparr>q_id = 1, q_assessment = 1, q_type = ''multiple_choice'', q_order = 1, q_points = 2\<rparr>),
    (\<lparr>an_id = 2, an_attempt = 1, an_question = 2, an_choice = None,
      an_text_answer = ''text'', an_file_answer = None, an_is_correct = False\<rparr>,
     \<lparr>q_id = 2, q_assessment = 1, q_type = ''essay'', q_order = 2, q_points = 5\<rparr>)]"
  by (simp add: answers_with_question_def db_graded_def db_start_def empty_db_def)

lemma py_float_examples:
  "py_float ''3.5'' = Some (Finite (7 / 2))" "py_float ''100'' = Some (Finite 100)"
  "py_float ''abc'' = None"
  by code_simp+





section \<open>Proofs: malformed numeric input\<close>

text \<open>
  The sibling handler \<open>question_edit\<close> keeps the stored order and points when the
  submitted texts do not convert.
\<close>

lemma question_edit_keeps_on_malformed:
  assumes "get_question_of_school d question_id sch = Some q"
    and "req_method req = ''POST''"
    and "req_POST req (Named ''order'') = Some s1" "py_int s1 = None"
    and "req_POST req (Named ''points'') = Some s2" "py_float s2 = None"
  shows "\<exists>d' q'. question_edit d req slug question_id su sch =
            Inr (d', [], Redirect (QuestionList (sc_slug sch) (q_assessment q))) \<and>
          q_order q' = q_order q \<and> q_points q' = q_points q \<and>
          d' = d\<lparr>db_questions := map (\<lambda>x. if q_id x = q_id q then q' else x) (db_questions d)\<rparr>"
proof -
  let ?q' = "q\<lparr>q_type := (case req_POST req (Named ''type'') of None \<Rightarrow> q_type q | Some s \<Rightarrow> s),
               q_order := q_order q, q_points := q_points q\<rparr>"
  have "question_edit d req slug question_id su sch =
      Inr (d\<lparr>db_questions := map (\<lambda>x. if q_id x = q_id q then ?q' else x) (db_questions d)\<rparr>,
           [], Redirect (QuestionList (sc_slug sch) (q_assessment q)))"
    using assms by (simp add: question_edit_def Let_def)
  moreover have "q_order ?q' = q_order q" "q_points ?q' = q_points q" by simp_all
  ultimately show ?thesis by blast
qed

text \<open>
  C7 fails on the code. \<open>grade_attempt\<close> converts a grade field with a bare
  \<open>float(...)\<close>, and \<open>assessment_create\<close> converts weight, attempts and time limit with
  bare \<open>float(...)\<close> and \<open>int(...)\<close>: the text \<open>abc\<close> raises ValueError out of both
  handlers, and nothing is stored.
\<close>

theorem malformed_number_propagates:
  "grade_attempt db_graded (post_request malformed_grade_form) ''s1'' 1 1 admin1 sch1
     = Inl ValueError \<and>
   assessment_create (\<lambda>_. None) db_graded (post_request malformed_weight_form) ''s1'' 1 admin1 sch1
     = Inl ValueError"
proof -
  let ?t = "\<lparr>at_id = 1, at_student = 5, at_assessment = 1, at_started_at = 10,
        at_finished_at = Some 20, at_score = Some 2, at_is_submitted = True,
        at_attempt_number = 1\<rparr>"
  have m: "req_method (post_request f) = ''POST''" "req_POST (post_request f) = f" for f
    by (simp_all add: post_request_def)
  have "grade_loop malformed_grade_form (answers_with_question db_graded ?t) (Finite 0)
      = Inl ValueError"
    unfolding db_graded_answers malformed_grade_form_def by code_simp
  then have g: "grade_attempt db_graded (post_request malformed_grade_form) ''s1'' 1 1 admin1 sch1
     = Inl ValueError"
    unfolding grade_attempt_def db_graded_attempt by (simp add: m)
  have c: "find (\<lambda>c. c_id c = 1 \<and> c_school c = sc_id sch1) (db_courses db_graded) =
      Some \<lparr>c_id = 1, c_school = 1, c_category = None\<rparr>"
    by (simp add: db_graded_def db_start_def empty_db_def sch1_def)
  have t: "malformed_weight_form (Named ''title'') = Some ''Quiz''"
    by (simp add: malformed_weight_form_def)
  have w: "convert_or_default (malformed_weight_form (Named ''weight'')) py_float (Finite 0)
      = Inl ValueError"
    unfolding malformed_weight_form_def by code_simp
  have "assessment_create (\<lambda>_. None) db_graded (post_request malformed_weight_form) ''s1'' 1
      admin1 sch1 = Inl ValueError"
    unfolding assessment_create_def c by (simp add: m t w)
  with g show ?thesis by (intro conjI)
qed

section \<open>Proofs: assessment statistics\<close>







section \<open>Proofs: taking an assessment\<close>























end
